theory Spec2Isabelle
  imports Complex_Main
begin

section \<open>Errors and tensors\<close>

text \<open>
  Every exception the Python code can raise is a value. A computation that may raise
  returns \<open>error + 'a\<close>, with \<open>Inl\<close> for the exception.
\<close>

datatype error =
    AttributeError
  | IndexError
  | RuntimeError
  | TypeError
  | ValueError
  | ZeroDivisionError
  | AssertionError

definition ebind :: "error + 'a \<Rightarrow> ('a \<Rightarrow> error + 'b) \<Rightarrow> error + 'b" where
  "ebind r f = (case r of Inl e \<Rightarrow> Inl e | Inr v \<Rightarrow> f v)"

text \<open>
  A tensor is a nested list, outermost dimension first. Float tensors hold reals (exact
  arithmetic), long tensors hold integers.
\<close>

type_synonym 'a t2 = "'a list list"
type_synonym 'a t3 = "'a list list list"
type_synonym 'a t4 = "'a list list list list"

definition map2d :: "('a \<Rightarrow> 'b) \<Rightarrow> 'a t2 \<Rightarrow> 'b t2" where
  "map2d f = map (map f)"

definition map3d :: "('a \<Rightarrow> 'b) \<Rightarrow> 'a t3 \<Rightarrow> 'b t3" where
  "map3d f = map (map (map f))"

section \<open>Clamping into buckets\<close>

text \<open>\<open>torch.clamp(v, min=lo, max=hi)\<close>, elementwise: \<open>min(max(v, lo), hi)\<close>.\<close>

definition clamp :: "'a::linorder \<Rightarrow> 'a \<Rightarrow> 'a \<Rightarrow> 'a" where
  "clamp v lo hi = min (max v lo) hi"

text \<open>\<open>.long()\<close> on a float: truncation towards zero.\<close>

definition long :: "real \<Rightarrow> int" where
  "long v = (if 0 \<le> v then \<lfloor>v\<rfloor> else \<lceil>v\<rceil>)"

section \<open>nn.Embedding\<close>

record Embedding =
  num_embeddings :: nat
  embedding_dim :: nat
  padding_idx :: "nat option"
  weight :: "real t2"

text \<open>
  The constructor draws the table from \<open>g\<close> (entry \<open>g i j\<close> of row \<open>i\<close>) and zeroes the
  padding row.
\<close>

definition Embedding_init :: "nat \<Rightarrow> nat \<Rightarrow> nat option \<Rightarrow> (nat \<Rightarrow> nat \<Rightarrow> real) \<Rightarrow> Embedding" where
  "Embedding_init n d pad g =
     \<lparr> num_embeddings = n, embedding_dim = d, padding_idx = pad,
       weight = map (\<lambda>i. map (\<lambda>j. if pad = Some i then 0 else g i j) [0..<d]) [0..<n] \<rparr>"

text \<open>
  The lookup of one index: a row of the table, or IndexError when the index is outside
  \<open>[0, num_embeddings)\<close>.
\<close>

definition in_table :: "Embedding \<Rightarrow> int \<Rightarrow> bool" where
  "in_table E k = (0 \<le> k \<and> nat k < num_embeddings E)"

definition embedding2 :: "Embedding \<Rightarrow> int t2 \<Rightarrow> error + real t3" where
  "embedding2 E idx =
     (if list_all (list_all (in_table E)) idx
      then Inr (map2d (\<lambda>k. weight E ! nat k) idx)
      else Inl IndexError)"

definition embedding3 :: "Embedding \<Rightarrow> int t3 \<Rightarrow> error + real t4" where
  "embedding3 E idx =
     (if list_all (list_all (list_all (in_table E))) idx
      then Inr (map3d (\<lambda>k. weight E ! nat k) idx)
      else Inl IndexError)"

section \<open>The store\<close>

text \<open>
  Tensors are objects with identity: the input record holds references, and an in-place
  write changes the tensor every reference sees. The store maps an address to the tensor
  that lives there; \<open>alloc\<close> is what every operation that returns a new tensor does.
\<close>

type_synonym addr = nat

datatype tensor =
    Long2 "int t2"
  | Long3 "int t3"
  | Float3 "real t3"
  | Float4 "real t4"

type_synonym store = "tensor list"

definition alloc :: "store \<Rightarrow> tensor \<Rightarrow> addr \<times> store" where
  "alloc s v = (length s, s @ [v])"

definition load_long2 :: "store \<Rightarrow> addr \<Rightarrow> error + int t2" where
  "load_long2 s a =
     (if a < length s then (case s ! a of Long2 v \<Rightarrow> Inr v | _ \<Rightarrow> Inl TypeError)
      else Inl RuntimeError)"

definition load_long3 :: "store \<Rightarrow> addr \<Rightarrow> error + int t3" where
  "load_long3 s a =
     (if a < length s then (case s ! a of Long3 v \<Rightarrow> Inr v | _ \<Rightarrow> Inl TypeError)
      else Inl RuntimeError)"

definition load_float3 :: "store \<Rightarrow> addr \<Rightarrow> error + real t3" where
  "load_float3 s a =
     (if a < length s then (case s ! a of Float3 v \<Rightarrow> Inr v | _ \<Rightarrow> Inl TypeError)
      else Inl RuntimeError)"

definition load_float4 :: "store \<Rightarrow> addr \<Rightarrow> error + real t4" where
  "load_float4 s a =
     (if a < length s then (case s ! a of Float4 v \<Rightarrow> Inr v | _ \<Rightarrow> Inl TypeError)
      else Inl RuntimeError)"

text \<open>Reading an attribute that was never set raises AttributeError.\<close>

definition getattr :: "'a option \<Rightarrow> error + 'a" where
  "getattr f = (case f of None \<Rightarrow> Inl AttributeError | Some v \<Rightarrow> Inr v)"

section \<open>Tensor operations\<close>

definition same_shape2 :: "'a t2 \<Rightarrow> 'b t2 \<Rightarrow> bool" where
  "same_shape2 a b = list_all2 (\<lambda>r r'. length r = length r') a b"

definition same_shape3 :: "'a t3 \<Rightarrow> 'b t3 \<Rightarrow> bool" where
  "same_shape3 a b = list_all2 same_shape2 a b"

definition same_shape4 :: "'a t4 \<Rightarrow> 'b t4 \<Rightarrow> bool" where
  "same_shape4 a b = list_all2 same_shape3 a b"

definition add2 :: "real t2 \<Rightarrow> real t2 \<Rightarrow> real t2" where
  "add2 a b = map2 (map2 (+)) a b"

definition add3 :: "real t3 \<Rightarrow> real t3 \<Rightarrow> real t3" where
  "add3 a b = map2 add2 a b"

text \<open>\<open>a + b\<close> on two tensors of the same shape; a shape mismatch raises.\<close>

definition add3s :: "real t3 \<Rightarrow> real t3 \<Rightarrow> error + real t3" where
  "add3s a b = (if same_shape3 a b then Inr (add3 a b) else Inl RuntimeError)"

definition add4 :: "real t4 \<Rightarrow> real t4 \<Rightarrow> error + real t4" where
  "add4 a b = (if same_shape4 a b then Inr (map2 add3 a b) else Inl RuntimeError)"

text \<open>\<open>e.permute(0, 3, 1, 2)\<close> of an embedding output whose last dimension is \<open>d\<close>.\<close>

definition permute_0312 :: "nat \<Rightarrow> real t4 \<Rightarrow> real t4" where
  "permute_0312 d e = map (\<lambda>eg. map (\<lambda>h. map (map (\<lambda>row. row ! h)) eg) [0..<d]) e"

text \<open>\<open>b[:, :, 1:, 1:]\<close> read, and written with a tensor of the slice's shape.\<close>

definition getitem_block :: "real t4 \<Rightarrow> real t4" where
  "getitem_block b = map (map (\<lambda>m. map (drop 1) (drop 1 m))) b"

definition setitem_block :: "real t4 \<Rightarrow> real t4 \<Rightarrow> real t4" where
  "setitem_block b v =
     map2 (map2 (\<lambda>m w. take 1 m @ map2 (\<lambda>r x. take 1 r @ x) (drop 1 m) w)) b v"

text \<open>
  \<open>b[:, :, 1:, 0]\<close>: the integer index raises IndexError on a last dimension of extent
  0.
\<close>

definition getitem_col0 :: "real t4 \<Rightarrow> error + real t3" where
  "getitem_col0 b =
     (if list_all (list_all (list_all (\<lambda>r. r \<noteq> []))) b
      then Inr (map (map (\<lambda>m. map (\<lambda>r. r ! 0) (drop 1 m))) b)
      else Inl IndexError)"

definition setitem_col0 :: "real t4 \<Rightarrow> real t3 \<Rightarrow> real t4" where
  "setitem_col0 b v =
     map2 (map2 (\<lambda>m c. take 1 m @ map2 (\<lambda>r x. x # drop 1 r) (drop 1 m) c)) b v"

text \<open>\<open>b[:, :, 0, :]\<close>.\<close>

definition getitem_row0 :: "real t4 \<Rightarrow> error + real t3" where
  "getitem_row0 b =
     (if list_all (list_all (\<lambda>m. m \<noteq> [])) b
      then Inr (map (map (\<lambda>m. m ! 0)) b)
      else Inl IndexError)"

definition setitem_row0 :: "real t4 \<Rightarrow> real t3 \<Rightarrow> real t4" where
  "setitem_row0 b v = map2 (map2 (\<lambda>m r. r # drop 1 m)) b v"

text \<open>
  \<open>w.view(1, h, 1)\<close> of a weight matrix: its entries in row-major order, when there are
  \<open>h\<close> of them.
\<close>

definition view_1_h_1 :: "real t2 \<Rightarrow> nat \<Rightarrow> error + real list" where
  "view_1_h_1 w h = (if length (concat w) = h then Inr (concat w) else Inl RuntimeError)"

text \<open>\<open>c + t\<close> for \<open>c\<close> of shape (n_graph, h, k) and \<open>t\<close> of shape (1, h, 1).\<close>

definition add_t :: "real t3 \<Rightarrow> real list \<Rightarrow> error + real t3" where
  "add_t c t =
     (if list_all (\<lambda>hm. length hm = length t) c
      then Inr (map (\<lambda>hm. map2 (\<lambda>r th. map (\<lambda>v. v + th) r) hm t) c)
      else Inl RuntimeError)"

text \<open>\<open>b + a.unsqueeze(1)\<close> for \<open>b\<close> of shape (n_graph, h, k, l) and \<open>a\<close> of shape (n_graph, k, l).\<close>

definition add_unsqueeze1 :: "real t4 \<Rightarrow> real t3 \<Rightarrow> error + real t4" where
  "add_unsqueeze1 b a =
     (if list_all2 (\<lambda>hm m. list_all (\<lambda>x. same_shape2 x m) hm) b a
      then Inr (map2 (\<lambda>hm m. map (\<lambda>x. add2 x m) hm) b a)
      else Inl RuntimeError)"

section \<open>Shapes: MultiHeadAttention\<close>

text \<open>
  MultiHeadAttention.forward is embedded on tensor shapes: a shape is the list of a
  tensor's extents, and each PyTorch operation is the function from the shapes of its
  arguments to the shape of its result, or to the exception it raises.
\<close>

type_synonym shape = "nat list"

record Linear =
  in_features :: nat
  out_features :: nat

definition Linear_forward :: "Linear \<Rightarrow> shape \<Rightarrow> error + shape" where
  "Linear_forward L s =
     (if s \<noteq> [] \<and> last s = in_features L then Inr (butlast s @ [out_features L])
      else Inl RuntimeError)"

text \<open>\<open>nn.Dropout(p)\<close> refuses a probability outside \<open>[0, 1]\<close>.\<close>

definition Dropout_init :: "real \<Rightarrow> error + real" where
  "Dropout_init p = (if p < 0 \<or> 1 < p then Inl ValueError else Inr p)"

text \<open>
  \<open>t.view(dims)\<close>, where one entry of \<open>dims\<close> may be \<open>-1\<close>: that extent is inferred
  from the number of elements, which the product of the others must divide; when that
  product is 0 the inferred extent is ambiguous and the call raises.
\<close>

definition view :: "shape \<Rightarrow> int list \<Rightarrow> error + shape" where
  "view s dims =
     (let numel = prod_list s;
          newsize = prod_list (map nat (filter (\<lambda>d. d \<noteq> - 1) dims))
      in if list_ex (\<lambda>d. d < - 1) dims \<or> 1 < length (filter (\<lambda>d. d = - 1) dims)
         then Inl RuntimeError
         else if list_ex (\<lambda>d. d = - 1) dims
         then (if 0 < newsize \<and> numel mod newsize = 0
               then Inr (map (\<lambda>d. if d = - 1 then numel div newsize else nat d) dims)
               else Inl RuntimeError)
         else if numel = newsize then Inr (map nat dims)
         else Inl RuntimeError)"

definition transpose_shape :: "shape \<Rightarrow> nat \<Rightarrow> nat \<Rightarrow> error + shape" where
  "transpose_shape s i j =
     (if i < length s \<and> j < length s then Inr (s[i := s ! j, j := s ! i])
      else Inl IndexError)"

text \<open>Broadcasting of two extents, and of two shapes aligned at the last dimension.\<close>

definition broadcast_dim :: "nat \<Rightarrow> nat \<Rightarrow> error + nat" where
  "broadcast_dim a b =
     (if a = b then Inr a else if a = 1 then Inr b else if b = 1 then Inr a
      else Inl RuntimeError)"

fun broadcast_rev :: "shape \<Rightarrow> shape \<Rightarrow> error + shape" where
  "broadcast_rev [] bs = Inr bs"
| "broadcast_rev as [] = Inr as"
| "broadcast_rev (a # as) (b # bs) =
     ebind (broadcast_dim a b) (\<lambda>d. ebind (broadcast_rev as bs) (\<lambda>ds. Inr (d # ds)))"

definition broadcast_shapes :: "shape \<Rightarrow> shape \<Rightarrow> error + shape" where
  "broadcast_shapes a b = ebind (broadcast_rev (rev a) (rev b)) (\<lambda>r. Inr (rev r))"

text \<open>\<open>torch.matmul\<close> of two tensors with four dimensions.\<close>

definition matmul :: "shape \<Rightarrow> shape \<Rightarrow> error + shape" where
  "matmul a b =
     (case (a, b) of
        ([b1, h1, n, k], [b2, h2, k', p]) \<Rightarrow>
          if k = k' then
            ebind (broadcast_dim b1 b2) (\<lambda>b0.
            ebind (broadcast_dim h1 h2) (\<lambda>h0. Inr [b0, h0, n, p]))
          else Inl RuntimeError
      | _ \<Rightarrow> Inl RuntimeError)"

definition softmax :: "shape \<Rightarrow> nat \<Rightarrow> error + shape" where
  "softmax s d = (if d < length s then Inr s else Inl IndexError)"

record MultiHeadAttention =
  num_heads :: nat
  att_size :: nat
  scale :: real
  linear_q :: Linear
  linear_k :: Linear
  linear_v :: Linear
  att_dropout :: real
  output_layer :: Linear

text \<open>
  Lines 30 to 43. \<open>hidden_size // num_heads\<close> raises for \<open>num_heads = 0\<close>, and
  \<open>att_size ** -0.5\<close> raises for \<open>att_size = 0\<close>; nothing compares
  \<open>num_heads * att_size\<close> with \<open>hidden_size\<close>.
\<close>

definition MultiHeadAttention_init :: "nat \<Rightarrow> real \<Rightarrow> nat \<Rightarrow> error + MultiHeadAttention" where
  "MultiHeadAttention_init hidden_size attention_dropout_rate heads =
     (if heads = 0 then Inl ZeroDivisionError
      else if hidden_size div heads = 0 then Inl ZeroDivisionError
      else ebind (Dropout_init attention_dropout_rate) (\<lambda>p.
        Inr \<lparr> num_heads = heads,
              att_size = hidden_size div heads,
              scale = 1 / sqrt (real (hidden_size div heads)),
              linear_q = \<lparr> in_features = hidden_size, out_features = heads * (hidden_size div heads) \<rparr>,
              linear_k = \<lparr> in_features = hidden_size, out_features = heads * (hidden_size div heads) \<rparr>,
              linear_v = \<lparr> in_features = hidden_size, out_features = heads * (hidden_size div heads) \<rparr>,
              att_dropout = p,
              output_layer = \<lparr> in_features = heads * (hidden_size div heads), out_features = hidden_size \<rparr> \<rparr>))"

text \<open>Lines 51 to 84, on shapes.\<close>

definition MultiHeadAttention_forward ::
    "MultiHeadAttention \<Rightarrow> shape \<Rightarrow> shape \<Rightarrow> shape \<Rightarrow> shape option \<Rightarrow> error + shape" where
  "MultiHeadAttention_forward M q k v attn_bias =
     (if q = [] then Inl IndexError else
      case (q, att_size M, att_size M, hd q) of (orig_q_size, d_k, d_v, batch_size) \<Rightarrow>
      ebind (Linear_forward (linear_q M) q) (\<lambda>q1.
      ebind (view q1 [int batch_size, - 1, int (num_heads M), int d_k]) (\<lambda>q2.
      ebind (Linear_forward (linear_k M) k) (\<lambda>k1.
      ebind (view k1 [int batch_size, - 1, int (num_heads M), int d_k]) (\<lambda>k2.
      ebind (Linear_forward (linear_v M) v) (\<lambda>v1.
      ebind (view v1 [int batch_size, - 1, int (num_heads M), int d_v]) (\<lambda>v2.
      ebind (transpose_shape q2 1 2) (\<lambda>q3.
      ebind (transpose_shape v2 1 2) (\<lambda>v3.
      ebind (transpose_shape k2 1 2) (\<lambda>k3.
      ebind (transpose_shape k3 2 3) (\<lambda>k4.
      ebind (matmul q3 k4) (\<lambda>x1.
      ebind (case attn_bias of None \<Rightarrow> Inr x1 | Some b \<Rightarrow> broadcast_shapes x1 b) (\<lambda>x2.
      ebind (softmax x2 3) (\<lambda>x3.
      ebind (matmul x3 v3) (\<lambda>x4.
      ebind (transpose_shape x4 1 2) (\<lambda>x5.
      ebind (view x5 [int batch_size, - 1, int (num_heads M * d_v)]) (\<lambda>x6.
      ebind (Linear_forward (output_layer M) x6) (\<lambda>x7.
      if x7 = orig_q_size then Inr x7 else Inl AssertionError))))))))))))))))))"

section \<open>The constructors\<close>

record FeedForwardNetwork =
  layer1 :: Linear
  layer2 :: Linear

definition FeedForwardNetwork_init :: "nat \<Rightarrow> nat \<Rightarrow> real \<Rightarrow> FeedForwardNetwork" where
  "FeedForwardNetwork_init hidden_size ffn_size dropout_rate =
     \<lparr> layer1 = \<lparr> in_features = hidden_size, out_features = ffn_size \<rparr>,
       layer2 = \<lparr> in_features = ffn_size, out_features = hidden_size \<rparr> \<rparr>"

text \<open>
  An encoder layer: its sub-modules as \<open>__init__\<close> builds them, and \<open>call\<close>, the function
  from the sequence and the bias to the new sequence that the layer computes with the
  weights it drew.
\<close>

record EncoderLayer =
  self_attention_norm :: nat
  self_attention :: MultiHeadAttention
  self_attention_dropout :: real
  ffn_norm :: nat
  ffn :: FeedForwardNetwork
  ffn_dropout :: real
  call :: "real t3 \<Rightarrow> real t4 \<Rightarrow> error + real t3"

definition EncoderLayer_init ::
    "nat \<Rightarrow> nat \<Rightarrow> real \<Rightarrow> real \<Rightarrow> nat \<Rightarrow> (real t3 \<Rightarrow> real t4 \<Rightarrow> error + real t3)
       \<Rightarrow> error + EncoderLayer" where
  "EncoderLayer_init hidden_size ffn_size dropout_rate attention_dropout_rate heads f =
     ebind (MultiHeadAttention_init hidden_size attention_dropout_rate heads) (\<lambda>attn.
     ebind (Dropout_init dropout_rate) (\<lambda>p1.
     ebind (Dropout_init dropout_rate) (\<lambda>p2.
     Inr \<lparr> self_attention_norm = hidden_size,
           self_attention = attn,
           self_attention_dropout = p1,
           ffn_norm = hidden_size,
           ffn = FeedForwardNetwork_init hidden_size ffn_size dropout_rate,
           ffn_dropout = p2,
           call = f \<rparr>)))"

text \<open>A list comprehension whose body may raise stops at the first exception.\<close>

primrec emap :: "('a \<Rightarrow> error + 'b) \<Rightarrow> 'a list \<Rightarrow> error + 'b list" where
  "emap f [] = Inr []"
| "emap f (x # xs) = ebind (f x) (\<lambda>y. ebind (emap f xs) (\<lambda>ys. Inr (y # ys)))"

section \<open>The input record and the model\<close>

text \<open>
  The batch \<open>data\<close>: each attribute is a reference to a tensor, or absent. The model
  object: an attribute that \<open>__init__\<close> sets only under a flag is optional. The linear
  encoder of the node features and the final layer normalisation are kept as the
  functions they compute, as the encoder layers are; dropout is the identity (the module
  is in evaluation mode).
\<close>

record Data =
  data_x :: "addr option"
  data_edge_index :: "addr option"
  data_attn_bias :: "addr option"
  data_len_shortest_path :: "addr option"
  data_in_degree :: "addr option"
  data_out_degree :: "addr option"
  data_num_shortest_path :: "addr option"
  data_undir_jac :: "addr option"
  data_undir_aa :: "addr option"

record Graphormer =
  num_heads :: nat
  atom_encoder :: "real t3 \<Rightarrow> error + real t3"
  len_shortest_path_encoder :: Embedding
  num_shortest_path_encoder :: "Embedding option"
  undir_jac_encoder :: "Embedding option"
  undir_aa_encoder :: "Embedding option"
  in_degree_encoder :: "Embedding option"
  out_degree_encoder :: "Embedding option"
  input_dropout :: real
  layers :: "EncoderLayer list"
  final_ln :: "real t3 \<Rightarrow> error + real t3"
  graph_token :: Embedding
  graph_token_virtual_distance :: Embedding
  multi_hop_max_dist :: int
  hidden_dim :: nat
  use_num_spd :: bool
  use_cnb_jac :: bool
  use_cnb_aa :: bool
  use_degree :: bool

section \<open>Graphormer.__init__ and reset_parameters\<close>

text \<open>
  The arguments of the constructor, and the values the default initialisers draw: the
  entries of each embedding table by the attribute's name, and the functions computed by
  the linear encoder, by the encoder layers and by the final normalisation.
\<close>

record Graphormer_args =
  arg_n_layers :: nat
  arg_num_node_feat :: nat
  arg_num_heads :: nat
  arg_hidden_dim :: nat
  arg_ffn_dim :: nat
  arg_use_num_spd :: bool
  arg_use_cnb_jac :: bool
  arg_use_cnb_aa :: bool
  arg_use_degree :: bool
  arg_dropout_rate :: real
  arg_intput_dropout_rate :: real
  arg_attention_dropout_rate :: real
  arg_multi_hop_max_dist :: int

record initial =
  init_table :: "string \<Rightarrow> nat \<Rightarrow> nat \<Rightarrow> real"
  init_atom_encoder :: "real t3 \<Rightarrow> error + real t3"
  init_layer :: "nat \<Rightarrow> real t3 \<Rightarrow> real t4 \<Rightarrow> error + real t3"
  init_final_ln :: "real t3 \<Rightarrow> error + real t3"

text \<open>Lines 121 to 173.\<close>

definition Graphormer_init :: "Graphormer_args \<Rightarrow> initial \<Rightarrow> error + Graphormer" where
  "Graphormer_init a w =
     ebind (Dropout_init (arg_intput_dropout_rate a)) (\<lambda>p.
     ebind (emap (\<lambda>i. EncoderLayer_init (arg_hidden_dim a) (arg_ffn_dim a) (arg_dropout_rate a)
                        (arg_attention_dropout_rate a) (arg_num_heads a) (init_layer w i))
              [0..<arg_n_layers a]) (\<lambda>encoders.
     Inr \<lparr> num_heads = arg_num_heads a,
           atom_encoder = init_atom_encoder w,
           len_shortest_path_encoder =
             Embedding_init 40 (arg_num_heads a) (Some 0) (init_table w ''len_shortest_path_encoder''),
           num_shortest_path_encoder =
             (if arg_use_num_spd a
              then Some (Embedding_init 40 (arg_num_heads a) (Some 0)
                           (init_table w ''num_shortest_path_encoder''))
              else None),
           undir_jac_encoder =
             (if arg_use_cnb_jac a
              then Some (Embedding_init 40 (arg_num_heads a) (Some 0)
                           (init_table w ''undir_jac_encoder''))
              else None),
           undir_aa_encoder =
             (if arg_use_cnb_aa a
              then Some (Embedding_init 40 (arg_num_heads a) (Some 0)
                           (init_table w ''undir_aa_encoder''))
              else None),
           in_degree_encoder =
             (if arg_use_degree a
              then Some (Embedding_init 64 (arg_hidden_dim a) (Some 0)
                           (init_table w ''in_degree_encoder''))
              else None),
           out_degree_encoder =
             (if arg_use_degree a
              then Some (Embedding_init 64 (arg_hidden_dim a) (Some 0)
                           (init_table w ''out_degree_encoder''))
              else None),
           input_dropout = p,
           layers = encoders,
           final_ln = init_final_ln w,
           graph_token = Embedding_init 1 (arg_hidden_dim a) None (init_table w ''graph_token''),
           graph_token_virtual_distance =
             Embedding_init 1 (arg_num_heads a) None (init_table w ''graph_token_virtual_distance''),
           multi_hop_max_dist = arg_multi_hop_max_dist a,
           hidden_dim = arg_hidden_dim a,
           use_num_spd = arg_use_num_spd a,
           use_cnb_jac = arg_use_cnb_jac a,
           use_cnb_aa = arg_use_cnb_aa a,
           use_degree = arg_use_degree a \<rparr>))"

text \<open>
  Lines 175 to 192. Resetting a module that exists does not raise; what can raise is
  reading the attribute that holds it. The two degree tables are read outside any test of
  \<open>use_degree\<close>.
\<close>

definition reset_parameters :: "Graphormer \<Rightarrow> error + unit" where
  "reset_parameters m =
     ebind (if use_num_spd m then ebind (getattr (num_shortest_path_encoder m)) (\<lambda>_. Inr ())
            else Inr ()) (\<lambda>_.
     ebind (if use_cnb_jac m then ebind (getattr (undir_jac_encoder m)) (\<lambda>_. Inr ())
            else Inr ()) (\<lambda>_.
     ebind (if use_cnb_aa m then ebind (getattr (undir_aa_encoder m)) (\<lambda>_. Inr ())
            else Inr ()) (\<lambda>_.
     ebind (getattr (in_degree_encoder m)) (\<lambda>_.
     ebind (getattr (out_degree_encoder m)) (\<lambda>_. Inr ())))))"

section \<open>Graphormer.forward\<close>

text \<open>Lines 220 to 231: the summed structural channels, of shape (n_graph, n_head, n_node, n_node).\<close>

definition spatial_pos_bias :: "Graphormer \<Rightarrow> Data \<Rightarrow> store \<Rightarrow> int t3 \<Rightarrow> error + real t4" where
  "spatial_pos_bias m data s len_shortest_path =
     ebind (embedding3 (len_shortest_path_encoder m) len_shortest_path) (\<lambda>e0.
     ebind (if use_num_spd m then
              ebind (getattr (data_num_shortest_path data)) (\<lambda>a.
              ebind (load_long3 s a) (\<lambda>raw.
              ebind (getattr (num_shortest_path_encoder m)) (\<lambda>E.
              ebind (embedding3 E (map3d (\<lambda>v. clamp v 0 39) raw)) (\<lambda>e.
              add4 (permute_0312 (embedding_dim (len_shortest_path_encoder m)) e0)
                   (permute_0312 (embedding_dim E) e)))))
            else Inr (permute_0312 (embedding_dim (len_shortest_path_encoder m)) e0)) (\<lambda>b1.
     ebind (if use_cnb_jac m then
              ebind (getattr (data_undir_jac data)) (\<lambda>a.
              ebind (load_float3 s a) (\<lambda>undir_jac.
              ebind (getattr (undir_jac_encoder m)) (\<lambda>E.
              ebind (embedding3 E (map3d (\<lambda>v. long (clamp (v * 30) 0 39)) undir_jac)) (\<lambda>e.
              add4 b1 (permute_0312 (embedding_dim E) e)))))
            else Inr b1) (\<lambda>b2.
     if use_cnb_aa m then
       ebind (getattr (data_undir_aa data)) (\<lambda>a.
       ebind (load_float3 s a) (\<lambda>undir_aa.
       ebind (getattr (undir_aa_encoder m)) (\<lambda>E.
       ebind (embedding3 E (map3d (\<lambda>v. long (clamp (v * 10) 0 39)) undir_aa)) (\<lambda>e.
       add4 b2 (permute_0312 (embedding_dim E) e)))))
     else Inr b2)))"

text \<open>
  Lines 213 to 241. \<open>attn_bias\<close> is the address of the caller's tensor. The clone and the
  repeated tensor are new objects; the three slice assignments write to the repeated
  tensor in place; the last sum reads the caller's tensor again.
\<close>

definition forward_graph_attn_bias ::
    "Graphormer \<Rightarrow> Data \<Rightarrow> store \<Rightarrow> addr \<Rightarrow> int t3 \<Rightarrow> error + (real t4 \<times> store)" where
  "forward_graph_attn_bias m data s attn_bias len_shortest_path =
     ebind (load_float3 s attn_bias) (\<lambda>ab.
     case alloc s (Float3 ab) of (c, s1) \<Rightarrow>
     ebind (load_float3 s1 c) (\<lambda>cv.
     case alloc s1 (Float4 (map (replicate (num_heads m)) cv)) of (g, s2) \<Rightarrow>
     ebind (spatial_pos_bias m data s2 len_shortest_path) (\<lambda>sp.
     ebind (load_float4 s2 g) (\<lambda>b1.
     ebind (add4 (getitem_block b1) sp) (\<lambda>v1.
     case s2[g := Float4 (setitem_block b1 v1)] of s3 \<Rightarrow>
     ebind (view_1_h_1 (weight (graph_token_virtual_distance m)) (num_heads m)) (\<lambda>t.
     ebind (load_float4 s3 g) (\<lambda>b2.
     ebind (getitem_col0 b2) (\<lambda>c2.
     ebind (add_t c2 t) (\<lambda>v2.
     case s3[g := Float4 (setitem_col0 b2 v2)] of s4 \<Rightarrow>
     ebind (load_float4 s4 g) (\<lambda>b3.
     ebind (getitem_row0 b3) (\<lambda>r3.
     ebind (add_t r3 t) (\<lambda>v3.
     case s4[g := Float4 (setitem_row0 b3 v3)] of s5 \<Rightarrow>
     ebind (load_float4 s5 g) (\<lambda>b4.
     ebind (load_float3 s5 attn_bias) (\<lambda>ab'.
     ebind (add_unsqueeze1 b4 ab') (\<lambda>res.
     Inr (res, s5))))))))))))))))"

text \<open>
  Lines 244 to 254: the encoded node features, the degree offsets under \<open>use_degree\<close>,
  and the graph token in front of every graph's nodes.
\<close>

definition forward_graph_node_feature ::
    "Graphormer \<Rightarrow> real t3 \<Rightarrow> int t2 \<Rightarrow> int t2 \<Rightarrow> error + real t3" where
  "forward_graph_node_feature m xv in_degree out_degree =
     ebind (atom_encoder m xv) (\<lambda>nf0.
     ebind (if use_degree m then
              ebind (getattr (in_degree_encoder m)) (\<lambda>Ei.
              ebind (embedding2 Ei in_degree) (\<lambda>ei.
              ebind (add3s nf0 ei) (\<lambda>nf1.
              ebind (getattr (out_degree_encoder m)) (\<lambda>Eo.
              ebind (embedding2 Eo out_degree) (\<lambda>eo.
              add3s nf1 eo)))))
            else Inr nf0) (\<lambda>node_feature.
     if length node_feature = length xv \<and>
        list_all (list_all (\<lambda>r. length r = embedding_dim (graph_token m))) node_feature
     then Inr (map2 (@) (replicate (length xv) (weight (graph_token m))) node_feature)
     else Inl RuntimeError))"

fun run_layers :: "EncoderLayer list \<Rightarrow> real t3 \<Rightarrow> real t4 \<Rightarrow> error + real t3" where
  "run_layers [] output b = Inr output"
| "run_layers (enc_layer # ls) output b =
     ebind (call enc_layer output b) (\<lambda>y. run_layers ls y b)"

text \<open>
  The whole call. The result is the output tensor with the store as the call leaves it.
  \<open>perturb\<close> is the second argument of the source.
\<close>

definition forward :: "Graphormer \<Rightarrow> Data \<Rightarrow> 'p option \<Rightarrow> store \<Rightarrow> error + (real t3 \<times> store)" where
  "forward m data perturb s =
     ebind (getattr (data_x data)) (\<lambda>xa.
     ebind (getattr (data_edge_index data)) (\<lambda>edge_index.
     ebind (getattr (data_attn_bias data)) (\<lambda>attn_bias.
     ebind (getattr (data_len_shortest_path data)) (\<lambda>la.
     ebind (load_long3 s la) (\<lambda>lraw.
     ebind (getattr (data_in_degree data)) (\<lambda>ia.
     ebind (load_long2 s ia) (\<lambda>iraw.
     ebind (getattr (data_out_degree data)) (\<lambda>oa.
     ebind (load_long2 s oa) (\<lambda>oraw.
     ebind (load_float3 s xa) (\<lambda>xv.
     ebind (forward_graph_attn_bias m data s attn_bias (map3d (\<lambda>v. clamp v 0 39) lraw)) (\<lambda>(graph_attn_bias, s').
     ebind (forward_graph_node_feature m xv (map2d (\<lambda>v. clamp v 0 63) iraw)
              (map2d (\<lambda>v. clamp v 0 63) oraw)) (\<lambda>graph_node_feature.
     ebind (run_layers (layers m) graph_node_feature graph_attn_bias) (\<lambda>output.
     ebind (final_ln m output) (\<lambda>y. Inr (y, s')))))))))))))))"

text \<open>The bias tensor the call hands to the encoder layers (the prefix of \<open>forward\<close> up to line 241).\<close>

definition forward_bias :: "Graphormer \<Rightarrow> Data \<Rightarrow> store \<Rightarrow> error + (real t4 \<times> store)" where
  "forward_bias m data s =
     ebind (getattr (data_x data)) (\<lambda>xa.
     ebind (getattr (data_edge_index data)) (\<lambda>edge_index.
     ebind (getattr (data_attn_bias data)) (\<lambda>attn_bias.
     ebind (getattr (data_len_shortest_path data)) (\<lambda>la.
     ebind (load_long3 s la) (\<lambda>lraw.
     ebind (getattr (data_in_degree data)) (\<lambda>ia.
     ebind (load_long2 s ia) (\<lambda>iraw.
     ebind (getattr (data_out_degree data)) (\<lambda>oa.
     ebind (load_long2 s oa) (\<lambda>oraw.
     ebind (load_float3 s xa) (\<lambda>xv.
     forward_graph_attn_bias m data s attn_bias (map3d (\<lambda>v. clamp v 0 39) lraw)))))))))))"

section \<open>Concrete inputs\<close>

definition initial0 :: initial where
  "initial0 =
     \<lparr> init_table = (\<lambda>name i j. of_nat (i + 2 * j)),
       init_atom_encoder = Inr,
       init_layer = (\<lambda>i y b. Inr y),
       init_final_ln = Inr \<rparr>"

definition args_10_3 :: Graphormer_args where
  "args_10_3 =
     \<lparr> arg_n_layers = 1, arg_num_node_feat = 4, arg_num_heads = 3, arg_hidden_dim = 10,
       arg_ffn_dim = 16, arg_use_num_spd = False, arg_use_cnb_jac = False,
       arg_use_cnb_aa = False, arg_use_degree = False, arg_dropout_rate = 1 / 10,
       arg_intput_dropout_rate = 1 / 10, arg_attention_dropout_rate = 1 / 10,
       arg_multi_hop_max_dist = 20 \<rparr>"

definition args_degree :: Graphormer_args where
  "args_degree = args_10_3 \<lparr> arg_num_heads := 2, arg_hidden_dim := 8, arg_use_degree := True \<rparr>"


definition store0 :: store where
  "store0 =
     [ Float3 [[[1, 2], [3, 4]]],
       Long2 [[0, 1], [1, 0]],
       Float3 [[[0, 1, 2], [3, 4, 5], [6, 7, 8]]],
       Long3 [[[0, 1000], [- 1, 2]]],
       Long2 [[1, 100]],
       Long2 [[- 5, 2]],
       Long3 [[[1, 1], [1, 50]]],
       Float3 [[[1 / 2, 1 / 10], [2, 0]]],
       Float3 [[[5 / 4, 0], [0, 10]]] ]"

definition data0 :: Data where
  "data0 =
     \<lparr> data_x = Some 0, data_edge_index = Some 1, data_attn_bias = Some 2,
       data_len_shortest_path = Some 3, data_in_degree = Some 4, data_out_degree = Some 5,
       data_num_shortest_path = Some 6, data_undir_jac = Some 7, data_undir_aa = Some 8 \<rparr>"

section \<open>The bias of one head of one graph\<close>

text \<open>
  The three slice assignments and the last sum, on the matrix of one graph and one head:
  \<open>a\<close> is the caller's matrix, \<open>sp\<close> the structural sum of the head and \<open>th\<close> its
  virtual distance. The proofs reduce the tensor operations to these.
\<close>

definition block_mat :: "real t2 \<Rightarrow> real t2 \<Rightarrow> real t2" where
  "block_mat m w = take 1 m @ map2 (\<lambda>r x. take 1 r @ x) (drop 1 m) w"

definition col0_mat :: "real t2 \<Rightarrow> real \<Rightarrow> real t2" where
  "col0_mat m th =
     take 1 m @ map2 (\<lambda>r x. x # drop 1 r) (drop 1 m) (map (\<lambda>v. v + th) (map (\<lambda>r. r ! 0) (drop 1 m)))"

definition row0_mat :: "real t2 \<Rightarrow> real \<Rightarrow> real t2" where
  "row0_mat m th = map (\<lambda>v. v + th) (m ! 0) # drop 1 m"

definition head_bias :: "real t2 \<Rightarrow> real t2 \<Rightarrow> real \<Rightarrow> real t2" where
  "head_bias a sp th =
     add2 (row0_mat (col0_mat (block_mat a (add2 (map (drop 1) (drop 1 a)) sp)) th) th) a"

definition model_lit :: Graphormer where
  "model_lit =
     \<lparr> num_heads = 2,
       atom_encoder = Inr,
       len_shortest_path_encoder = Embedding_init 40 2 (Some 0) (\<lambda>i j. of_nat (i + 2 * j)),
       num_shortest_path_encoder = None,
       undir_jac_encoder = None,
       undir_aa_encoder = None,
       in_degree_encoder = None,
       out_degree_encoder = None,
       input_dropout = 1 / 10,
       layers = [],
       final_ln = Inr,
       graph_token = Embedding_init 1 2 None (\<lambda>i j. of_nat (i + 2 * j)),
       graph_token_virtual_distance = Embedding_init 1 2 None (\<lambda>i j. of_nat (i + 2 * j)),
       multi_hop_max_dist = 20,
       hidden_dim = 2,
       use_num_spd = False,
       use_cnb_jac = False,
       use_cnb_aa = False,
       use_degree = False \<rparr>"

definition bias0 :: "real t4" where
  "bias0 = [[[[0, 2, 4], [6, 8, 49], [12, 14, 18]], [[2, 4, 6], [8, 8, 51], [14, 14, 20]]]]"

definition store0' :: store where
  "store0' = store0 @
     [ Float3 [[[0, 1, 2], [3, 4, 5], [6, 7, 8]]],
       Float4 [[[[0, 1, 2], [3, 4, 44], [6, 7, 10]], [[2, 3, 4], [5, 4, 46], [8, 7, 12]]]] ]"

section \<open>Properties of the buckets\<close>


lemma clamp_id: "lo \<le> v \<Longrightarrow> v \<le> hi \<Longrightarrow> clamp v lo hi = v"
  by (simp add: clamp_def)





section \<open>The error monad\<close>

lemma ebind_Inr [simp]: "ebind (Inr v) f = f v"
  by (simp add: ebind_def)

lemma ebind_Inl [simp]: "ebind (Inl e) f = Inl e"
  by (simp add: ebind_def)

lemma ebind_eq_Inr: "ebind r f = Inr y \<longleftrightarrow> (\<exists>v. r = Inr v \<and> f v = Inr y)"
  by (cases r) simp_all

lemma ebind_eq_Inl: "ebind r f = Inl e \<longleftrightarrow> r = Inl e \<or> (\<exists>v. r = Inr v \<and> f v = Inl e)"
  by (cases r) simp_all

lemma isl_ebind: "isl (ebind r f) \<longleftrightarrow> isl r \<or> isl (f (projr r))"
  by (cases r) simp_all

lemma not_isl_projr: "\<not> isl r \<Longrightarrow> r = Inr (projr r)"
  by (cases r) simp_all

section \<open>Construction\<close>

lemma isl_emap: "isl (emap f xs) \<longleftrightarrow> (\<exists>x\<in>set xs. isl (f x))"
proof (induction xs)
  case Nil
  then show ?case by simp
next
  case (Cons x xs)
  show ?case
  proof (cases "f x")
    case (Inl e)
    then show ?thesis by simp
  next
    case (Inr y)
    then show ?thesis using Cons.IH by (cases "emap f xs") auto
  qed
qed

lemma isl_Dropout_init: "isl (Dropout_init p) \<longleftrightarrow> p < 0 \<or> 1 < p"
  by (simp add: Dropout_init_def)

lemma isl_MultiHeadAttention_init:
  "isl (MultiHeadAttention_init hs adr h) \<longleftrightarrow> h = 0 \<or> hs < h \<or> adr < 0 \<or> 1 < adr"
  by (auto simp: MultiHeadAttention_init_def isl_ebind isl_Dropout_init div_eq_0_iff)

lemma isl_EncoderLayer_init:
  "isl (EncoderLayer_init hs fs dr adr h f) \<longleftrightarrow>
     h = 0 \<or> hs < h \<or> adr < 0 \<or> 1 < adr \<or> dr < 0 \<or> 1 < dr"
  unfolding EncoderLayer_init_def
  by (auto simp: isl_ebind isl_MultiHeadAttention_init isl_Dropout_init)

lemma isl_Graphormer_init:
  "isl (Graphormer_init a w) \<longleftrightarrow>
     arg_intput_dropout_rate a < 0 \<or> 1 < arg_intput_dropout_rate a \<or>
     (0 < arg_n_layers a \<and>
       (arg_num_heads a = 0 \<or> arg_hidden_dim a < arg_num_heads a \<or>
        arg_attention_dropout_rate a < 0 \<or> 1 < arg_attention_dropout_rate a \<or>
        arg_dropout_rate a < 0 \<or> 1 < arg_dropout_rate a))"
  unfolding Graphormer_init_def
  by (auto simp: isl_ebind isl_emap isl_EncoderLayer_init isl_Dropout_init)

lemma Graphormer_init_fields:
  assumes "Graphormer_init a w = Inr m"
  shows "use_num_spd m = arg_use_num_spd a" "use_cnb_jac m = arg_use_cnb_jac a"
    "use_cnb_aa m = arg_use_cnb_aa a" "use_degree m = arg_use_degree a"
    "num_shortest_path_encoder m = None \<longleftrightarrow> \<not> arg_use_num_spd a"
    "undir_jac_encoder m = None \<longleftrightarrow> \<not> arg_use_cnb_jac a"
    "undir_aa_encoder m = None \<longleftrightarrow> \<not> arg_use_cnb_aa a"
    "in_degree_encoder m = None \<longleftrightarrow> \<not> arg_use_degree a"
    "out_degree_encoder m = None \<longleftrightarrow> \<not> arg_use_degree a"
  using assms unfolding Graphormer_init_def ebind_eq_Inr by auto

lemma args_10_3_constructs: "\<not> isl (Graphormer_init args_10_3 initial0)"
  by (simp add: isl_Graphormer_init args_10_3_def)

lemma args_degree_constructs: "\<not> isl (Graphormer_init args_degree initial0)"
  by (simp add: isl_Graphormer_init args_degree_def args_10_3_def)




text \<open>
  C9. \<open>reset_parameters\<close> reads the two degree tables whatever \<open>use_degree\<close> is: on a
  model constructed with \<open>use_degree=True\<close> it returns, and on a model constructed with
  \<open>use_degree=False\<close> it raises AttributeError.
\<close>

theorem reset_parameters_needs_degree:
  assumes "Graphormer_init a w = Inr m"
  shows "(arg_use_degree a \<longrightarrow> reset_parameters m = Inr ()) \<and>
         (\<not> arg_use_degree a \<longrightarrow> reset_parameters m = Inl AttributeError)"
  using Graphormer_init_fields [OF assms]
  by (auto simp: reset_parameters_def getattr_def split: option.splits)

theorem reset_parameters_needs_degree_witness:
  "reset_parameters (projr (Graphormer_init args_degree initial0)) = Inr () \<and>
   reset_parameters (projr (Graphormer_init args_10_3 initial0)) = Inl AttributeError"
  using reset_parameters_needs_degree [OF not_isl_projr [OF args_degree_constructs]]
    reset_parameters_needs_degree [OF not_isl_projr [OF args_10_3_constructs]]
  by (simp add: args_degree_def args_10_3_def)

section \<open>The perturbation argument\<close>

text \<open>
  C10. \<open>forward\<close> never reads \<open>perturb\<close>: two calls on the same model, batch and store
  that differ only in \<open>perturb\<close> return the same output (and leave the same store).
\<close>

theorem forward_ignores_perturb: "forward m data p s = forward m data q s"
  by (simp add: forward_def)

section \<open>Bucket lookups\<close>








lemma getattr_eq_Inr: "getattr f = Inr v \<longleftrightarrow> f = Some v"
  by (simp add: getattr_def split: option.splits)

lemma no_IndexError [simp]:
  "add4 x y \<noteq> Inl IndexError" "add3s p q \<noteq> Inl IndexError" "getattr f \<noteq> Inl IndexError"
  "load_long3 s k \<noteq> Inl IndexError" "load_float3 s k \<noteq> Inl IndexError"
  by (auto simp: add4_def add3s_def getattr_def load_long3_def load_float3_def
      split: option.splits tensor.splits)








section \<open>The bias in closed form\<close>

lemma same_shape2_lengths:
  "same_shape2 a b \<Longrightarrow> length a = length b \<and> (\<forall>i<length a. length (a ! i) = length (b ! i))"
  by (auto simp: same_shape2_def list_all2_conv_all_nth)

lemma head_bias_length:
  assumes "a \<noteq> []" and "same_shape2 (map (drop 1) (drop 1 a)) sp"
  shows "length (head_bias a sp th) = length a"
proof -
  obtain r0 rs where a: "a = r0 # rs" using assms(1) by (cases a) auto
  have l: "length sp = length rs"
    using same_shape2_lengths [OF assms(2)] by (simp add: a)
  show ?thesis
    by (simp add: head_bias_def add2_def row0_mat_def col0_mat_def block_mat_def a l)
qed

lemma head_bias_row0:
  assumes "a \<noteq> []" and "same_shape2 (map (drop 1) (drop 1 a)) sp"
  shows "head_bias a sp th ! 0 = map (\<lambda>v. v + th + v) (a ! 0)"
proof -
  obtain r0 rs where a: "a = r0 # rs" using assms(1) by (cases a) auto
  have "head_bias a sp th ! 0 = map2 (+) (map (\<lambda>v. v + th) r0) r0"
    by (simp add: head_bias_def add2_def row0_mat_def col0_mat_def block_mat_def a)
  also have "\<dots> = map (\<lambda>v. v + th + v) r0"
    by (induction r0) simp_all
  finally show ?thesis by (simp add: a)
qed

lemma head_bias_row:
  assumes "same_shape2 (map (drop 1) (drop 1 a)) sp" and "0 < i" and "i < length a"
    and "a ! i \<noteq> []"
  shows "head_bias a sp th ! i =
    (a ! i ! 0 + th + a ! i ! 0) #
      map2 (\<lambda>v s. v + s + v) (drop 1 (a ! i)) (sp ! (i - 1))"
proof -
  obtain r0 rs where a: "a = r0 # rs" using assms(3) by (cases a) auto
  obtain k where k: "i = Suc k" using assms(2) by (cases i) auto
  have kl: "k < length rs" using assms(3) by (simp add: a k)
  obtain c cs where r: "rs ! k = c # cs" using assms(4) by (cases "rs ! k") (auto simp: a k)
  have l: "length sp = length rs" "length (sp ! k) = length cs"
    using same_shape2_lengths [OF assms(1)] kl by (auto simp: a r)
  have "head_bias a sp th ! i = (c + th + c) # map2 (+) (map2 (+) cs (sp ! k)) cs"
    using kl l by (simp add: head_bias_def add2_def row0_mat_def col0_mat_def block_mat_def a k r)
  also have "map2 (+) (map2 (+) cs (sp ! k)) cs = map2 (\<lambda>v s. v + s + v) cs (sp ! k)"
    using l(2) by (intro nth_equalityI) simp_all
  finally show ?thesis by (simp add: a k r)
qed


lemma add4_Inr: "add4 a b = Inr v \<longleftrightarrow> same_shape4 a b \<and> v = map2 add3 a b"
  by (auto simp: add4_def)

lemma getitem_col0_Inr:
  "getitem_col0 b = Inr c \<longleftrightarrow>
     list_all (list_all (list_all (\<lambda>r. r \<noteq> []))) b \<and>
     c = map (map (\<lambda>m. map (\<lambda>r. r ! 0) (drop 1 m))) b"
  by (auto simp: getitem_col0_def)

lemma getitem_row0_Inr:
  "getitem_row0 b = Inr c \<longleftrightarrow> list_all (list_all (\<lambda>m. m \<noteq> [])) b \<and> c = map (map (\<lambda>m. m ! 0)) b"
  by (auto simp: getitem_row0_def)

lemma add_t_Inr:
  "add_t c t = Inr v \<longleftrightarrow>
     list_all (\<lambda>hm. length hm = length t) c \<and>
     v = map (\<lambda>hm. map2 (\<lambda>r th. map (\<lambda>v. v + th) r) hm t) c"
  by (auto simp: add_t_def)

lemma add_unsqueeze1_Inr:
  "add_unsqueeze1 b a = Inr v \<longleftrightarrow>
     list_all2 (\<lambda>hm m. list_all (\<lambda>x. same_shape2 x m) hm) b a \<and>
     v = map2 (\<lambda>hm m. map (\<lambda>x. add2 x m) hm) b a"
  by (auto simp: add_unsqueeze1_def)

lemma same_shape4_block:
  assumes "same_shape4 (getitem_block (map (replicate H) ab)) sp"
  shows "length sp = length ab"
    and "g < length ab \<Longrightarrow> length (sp ! g) = H"
    and "g < length ab \<Longrightarrow> h < H \<Longrightarrow> same_shape2 (map (drop 1) (drop 1 (ab ! g))) (sp ! g ! h)"
  using assms
  by (auto simp: same_shape4_def same_shape3_def getitem_block_def list_all2_conv_all_nth)

lemma bias_pipeline:
  assumes sh: "same_shape4 (getitem_block (map (replicate H) ab)) sp"
    and lt: "length t = H"
    and g: "g < length ab" and h: "h < H"
    and B1: "B1 = setitem_block (map (replicate H) ab)
                    (map2 add3 (getitem_block (map (replicate H) ab)) sp)"
    and B2: "B2 = setitem_col0 B1 (map (\<lambda>hm. map2 (\<lambda>r th. map (\<lambda>v. v + th) r) hm t)
                    (map (map (\<lambda>m. map (\<lambda>r. r ! 0) (drop 1 m))) B1))"
    and B3: "B3 = setitem_row0 B2 (map (\<lambda>hm. map2 (\<lambda>r th. map (\<lambda>v. v + th) r) hm t)
                    (map (map (\<lambda>m. m ! 0)) B2))"
  shows "length B3 = length ab" and "length (B3 ! g) = H"
    and "B3 ! g ! h =
      row0_mat (col0_mat (block_mat (ab ! g) (add2 (map (drop 1) (drop 1 (ab ! g))) (sp ! g ! h)))
        (t ! h)) (t ! h)"
proof -
  note s = same_shape4_block [OF sh]
  have l1: "length B1 = length ab" "length (B1 ! g) = H"
    using s g by (simp_all add: B1 setitem_block_def getitem_block_def add3_def)
  have e1: "B1 ! g ! h = block_mat (ab ! g) (add2 (map (drop 1) (drop 1 (ab ! g))) (sp ! g ! h))"
    using s g h by (simp add: B1 setitem_block_def getitem_block_def add3_def block_mat_def)
  have l2: "length B2 = length ab" "length (B2 ! g) = H"
    using l1 lt g by (simp_all add: B2 setitem_col0_def)
  have e2: "B2 ! g ! h = col0_mat (B1 ! g ! h) (t ! h)"
    using l1 lt g h by (simp add: B2 setitem_col0_def col0_mat_def)
  show "length B3 = length ab" "length (B3 ! g) = H"
    using l2 lt g by (simp_all add: B3 setitem_row0_def)
  have "B3 ! g ! h = row0_mat (B2 ! g ! h) (t ! h)"
    using l2 lt g h by (simp add: B3 setitem_row0_def row0_mat_def)
  then show "B3 ! g ! h =
      row0_mat (col0_mat (block_mat (ab ! g) (add2 (map (drop 1) (drop 1 (ab ! g))) (sp ! g ! h)))
        (t ! h)) (t ! h)"
    by (simp add: e1 e2)
qed


lemma load_float3_Inr: "load_float3 s a = Inr v \<longleftrightarrow> a < length s \<and> s ! a = Float3 v"
  by (auto simp: load_float3_def split: tensor.splits)

lemma load_float4_Inr: "load_float4 s a = Inr v \<longleftrightarrow> a < length s \<and> s ! a = Float4 v"
  by (auto simp: load_float4_def split: tensor.splits)

lemma load_long3_Inr: "load_long3 s a = Inr v \<longleftrightarrow> a < length s \<and> s ! a = Long3 v"
  by (auto simp: load_long3_def split: tensor.splits)

lemma load_long2_Inr: "load_long2 s a = Inr v \<longleftrightarrow> a < length s \<and> s ! a = Long2 v"
  by (auto simp: load_long2_def split: tensor.splits)

lemma view_1_h_1_Inr: "view_1_h_1 w h = Inr t \<longleftrightarrow> length (concat w) = h \<and> t = concat w"
  by (auto simp: view_1_h_1_def)

lemma forward_graph_attn_bias_InrD:
  assumes "forward_graph_attn_bias m data s a lsp = Inr (res, s')"
  shows "\<exists>ab sp t v1 c2 v2 r3 v3.
    a < length s \<and> s ! a = Float3 ab \<and>
    spatial_pos_bias m data (s @ [Float3 ab, Float4 (map (replicate (num_heads m)) ab)]) lsp = Inr sp \<and>
    view_1_h_1 (weight (graph_token_virtual_distance m)) (num_heads m) = Inr t \<and>
    add4 (getitem_block (map (replicate (num_heads m)) ab)) sp = Inr v1 \<and>
    getitem_col0 (setitem_block (map (replicate (num_heads m)) ab) v1) = Inr c2 \<and>
    add_t c2 t = Inr v2 \<and>
    getitem_row0 (setitem_col0 (setitem_block (map (replicate (num_heads m)) ab) v1) v2) = Inr r3 \<and>
    add_t r3 t = Inr v3 \<and>
    add_unsqueeze1 (setitem_row0 (setitem_col0 (setitem_block (map (replicate (num_heads m)) ab) v1) v2) v3) ab = Inr res \<and>
    s' = s @ [Float3 ab,
      Float4 (setitem_row0 (setitem_col0 (setitem_block (map (replicate (num_heads m)) ab) v1) v2) v3)]"
  using assms unfolding forward_graph_attn_bias_def alloc_def
  by (auto simp: ebind_eq_Inr load_float3_Inr load_float4_Inr nth_append)

lemma forward_graph_attn_bias_closed:
  assumes "forward_graph_attn_bias m data s a lsp = Inr (res, s')"
  shows "\<exists>ab sp t b.
    a < length s \<and> s ! a = Float3 ab \<and>
    spatial_pos_bias m data (s @ [Float3 ab, Float4 (map (replicate (num_heads m)) ab)]) lsp = Inr sp \<and>
    view_1_h_1 (weight (graph_token_virtual_distance m)) (num_heads m) = Inr t \<and>
    s' = s @ [Float3 ab, Float4 b] \<and>
    length res = length ab \<and>
    (\<forall>g<length ab. length (res ! g) = num_heads m \<and>
       (\<forall>h<num_heads m.
          res ! g ! h = head_bias (ab ! g) (sp ! g ! h) (t ! h) \<and>
          same_shape2 (res ! g ! h) (ab ! g) \<and>
          same_shape2 (map (drop 1) (drop 1 (ab ! g))) (sp ! g ! h)))"
proof -
  let ?H = "num_heads m"
  let ?B0 = "map (replicate ?H) ab"
  from forward_graph_attn_bias_InrD [OF assms]
  obtain ab sp t v1 c2 v2 r3 v3 where
    a: "a < length s" "s ! a = Float3 ab"
    and sp: "spatial_pos_bias m data (s @ [Float3 ab, Float4 (map (replicate ?H) ab)]) lsp = Inr sp"
    and t: "view_1_h_1 (weight (graph_token_virtual_distance m)) ?H = Inr t"
    and v1: "add4 (getitem_block (map (replicate ?H) ab)) sp = Inr v1"
    and c2: "getitem_col0 (setitem_block (map (replicate ?H) ab) v1) = Inr c2"
    and v2: "add_t c2 t = Inr v2"
    and r3: "getitem_row0 (setitem_col0 (setitem_block (map (replicate ?H) ab) v1) v2) = Inr r3"
    and v3: "add_t r3 t = Inr v3"
    and res: "add_unsqueeze1 (setitem_row0 (setitem_col0 (setitem_block (map (replicate ?H) ab) v1) v2) v3) ab = Inr res"
    and s': "s' = s @ [Float3 ab,
      Float4 (setitem_row0 (setitem_col0 (setitem_block (map (replicate ?H) ab) v1) v2) v3)]"
    by blast
  define B1 where "B1 = setitem_block (map (replicate ?H) ab) v1"
  define B2 where "B2 = setitem_col0 B1 v2"
  define B3 where "B3 = setitem_row0 B2 v3"
  have sh: "same_shape4 (getitem_block (map (replicate ?H) ab)) sp"
    and v1e: "v1 = map2 add3 (getitem_block (map (replicate ?H) ab)) sp"
    using v1 by (simp_all add: add4_Inr)
  have lt: "length t = ?H" using t by (auto simp: view_1_h_1_Inr)
  have e1: "B1 = setitem_block (map (replicate ?H) ab)
                    (map2 add3 (getitem_block (map (replicate ?H) ab)) sp)"
    by (simp add: B1_def v1e)
  have e2: "B2 = setitem_col0 B1 (map (\<lambda>hm. map2 (\<lambda>r th. map (\<lambda>v. v + th) r) hm t)
                    (map (map (\<lambda>m. map (\<lambda>r. r ! 0) (drop 1 m))) B1))"
    using c2 v2 by (simp add: B2_def B1_def getitem_col0_Inr add_t_Inr)
  have e3: "B3 = setitem_row0 B2 (map (\<lambda>hm. map2 (\<lambda>r th. map (\<lambda>v. v + th) r) hm t)
                    (map (map (\<lambda>m. m ! 0)) B2))"
    using r3 v3 by (simp add: B3_def B2_def B1_def getitem_row0_Inr add_t_Inr)
  have chk: "list_all2 (\<lambda>hm m. list_all (\<lambda>x. same_shape2 x m) hm) B3 ab"
    and rese: "res = map2 (\<lambda>hm m. map (\<lambda>x. add2 x m) hm) B3 ab"
    using res by (simp_all add: add_unsqueeze1_Inr B3_def B2_def B1_def)
  have l3: "length B3 = length ab" using chk by (simp add: list_all2_lengthD)
  have main: "length (res ! g) = ?H \<and>
       (\<forall>h<?H. res ! g ! h = head_bias (ab ! g) (sp ! g ! h) (t ! h) \<and>
          same_shape2 (res ! g ! h) (ab ! g) \<and>
          same_shape2 (map (drop 1) (drop 1 (ab ! g))) (sp ! g ! h))" if g: "g < length ab" for g
  proof -
    have lg: "length (B3 ! g) = ?H"
    proof (cases "0 < ?H")
      case True
      then show ?thesis using bias_pipeline(2) [OF sh lt g True e1 e2 e3] by simp
    next
      case False
      then show ?thesis
        using g sh lt same_shape4_block(1,2) [OF sh]
        by (simp add: e3 e2 e1 setitem_row0_def setitem_col0_def setitem_block_def add3_def
            getitem_block_def)
    qed
    have rg: "res ! g = map (\<lambda>x. add2 x (ab ! g)) (B3 ! g)"
      using g l3 by (simp add: rese)
    have "res ! g ! h = head_bias (ab ! g) (sp ! g ! h) (t ! h) \<and>
          same_shape2 (res ! g ! h) (ab ! g) \<and>
          same_shape2 (map (drop 1) (drop 1 (ab ! g))) (sp ! g ! h)" if h: "h < ?H" for h
    proof -
      have b: "B3 ! g ! h = row0_mat (col0_mat (block_mat (ab ! g)
                 (add2 (map (drop 1) (drop 1 (ab ! g))) (sp ! g ! h))) (t ! h)) (t ! h)"
        by (rule bias_pipeline(3) [OF sh lt g h e1 e2 e3])
      have r: "res ! g ! h = add2 (B3 ! g ! h) (ab ! g)"
        using h lg by (simp add: rg)
      have c: "same_shape2 (B3 ! g ! h) (ab ! g)"
        using chk g h lg l3 by (auto simp: list_all2_conv_all_nth list_all_length)
      have "same_shape2 (add2 (B3 ! g ! h) (ab ! g)) (ab ! g)"
        using c by (auto simp: same_shape2_def add2_def list_all2_conv_all_nth)
      then show ?thesis
        using same_shape4_block(3) [OF sh g h] by (simp add: r b head_bias_def)
    qed
    moreover have "length (res ! g) = ?H" using lg by (simp add: rg)
    ultimately show ?thesis by blast
  qed
  have "length res = length ab" using l3 by (simp add: rese)
  then show ?thesis using a sp t s' main by blast
qed

lemma head_bias_entry:
  assumes sh: "same_shape2 (map (drop 1) (drop 1 a)) sp"
    and i: "i < length a" and j: "j < length (a ! i)"
  shows "head_bias a sp th ! i ! j =
    a ! i ! j + (if 0 < i \<and> 0 < j then sp ! (i - 1) ! (j - 1) else 0) +
      (if i = 0 \<or> j = 0 then th else 0) + a ! i ! j"
proof (cases i)
  case 0
  have "a \<noteq> []" using i by auto
  then show ?thesis
    using head_bias_row0 [OF _ sh, of th] j by (simp add: 0)
next
  case (Suc k)
  have ne: "a ! i \<noteq> []" using j by auto
  have r: "head_bias a sp th ! i =
      (a ! i ! 0 + th + a ! i ! 0) # map2 (\<lambda>v s. v + s + v) (drop 1 (a ! i)) (sp ! (i - 1))"
    by (rule head_bias_row [OF sh _ i ne]) (simp add: Suc)
  have l: "length (sp ! k) = length (a ! i) - 1"
    using same_shape2_lengths [OF sh] i by (auto simp: Suc)
  show ?thesis
  proof (cases j)
    case 0
    then show ?thesis using r by (simp add: \<open>i = Suc k\<close>)
  next
    case (Suc j')
    then show ?thesis using r j l by (simp add: \<open>i = Suc k\<close>)
  qed
qed

lemma forward_bias_InrD:
  assumes "forward_bias m data s = Inr r"
  shows "\<exists>a la lraw.
    data_attn_bias data = Some a \<and> data_len_shortest_path data = Some la \<and>
    la < length s \<and> s ! la = Long3 lraw \<and>
    forward_graph_attn_bias m data s a (map3d (\<lambda>v. clamp v 0 39) lraw) = Inr r"
  using assms unfolding forward_bias_def
  by (auto simp: ebind_eq_Inr getattr_eq_Inr load_long3_Inr)

lemma forward_InrD:
  assumes "forward m data p s = Inr (out, s')"
  shows "\<exists>res. forward_bias m data s = Inr (res, s')"
  using assms unfolding forward_def forward_bias_def
  by (auto simp: ebind_eq_Inr)

lemma forward_bias_closed:
  assumes "forward_bias m data s = Inr (res, s')"
  shows "\<exists>a ab la lraw sp t.
    data_attn_bias data = Some a \<and> a < length s \<and> s ! a = Float3 ab \<and>
    data_len_shortest_path data = Some la \<and> la < length s \<and> s ! la = Long3 lraw \<and>
    spatial_pos_bias m data (s @ [Float3 ab, Float4 (map (replicate (num_heads m)) ab)])
      (map3d (\<lambda>v. clamp v 0 39) lraw) = Inr sp \<and>
    view_1_h_1 (weight (graph_token_virtual_distance m)) (num_heads m) = Inr t \<and>
    length res = length ab \<and>
    (\<forall>g<length ab. length (res ! g) = num_heads m \<and>
      (\<forall>h<num_heads m. length (res ! g ! h) = length (ab ! g) \<and>
        (\<forall>i<length (ab ! g). length (res ! g ! h ! i) = length (ab ! g ! i) \<and>
          (\<forall>j<length (ab ! g ! i).
             res ! g ! h ! i ! j =
               ab ! g ! i ! j + (if 0 < i \<and> 0 < j then sp ! g ! h ! (i - 1) ! (j - 1) else 0) +
                 (if i = 0 \<or> j = 0 then t ! h else 0) + ab ! g ! i ! j))))"
proof -
  from forward_bias_InrD [OF assms] obtain a la lraw where
    d: "data_attn_bias data = Some a" "data_len_shortest_path data = Some la"
      "la < length s" "s ! la = Long3 lraw"
    and f: "forward_graph_attn_bias m data s a (map3d (\<lambda>v. clamp v 0 39) lraw) = Inr (res, s')"
    by blast
  from forward_graph_attn_bias_closed [OF f] obtain ab sp t b where
    a: "a < length s" "s ! a = Float3 ab"
    and sp: "spatial_pos_bias m data (s @ [Float3 ab, Float4 (map (replicate (num_heads m)) ab)])
      (map3d (\<lambda>v. clamp v 0 39) lraw) = Inr sp"
    and t: "view_1_h_1 (weight (graph_token_virtual_distance m)) (num_heads m) = Inr t"
    and l: "length res = length ab"
    and m: "\<forall>g<length ab. length (res ! g) = num_heads m \<and>
       (\<forall>h<num_heads m.
          res ! g ! h = head_bias (ab ! g) (sp ! g ! h) (t ! h) \<and>
          same_shape2 (res ! g ! h) (ab ! g) \<and>
          same_shape2 (map (drop 1) (drop 1 (ab ! g))) (sp ! g ! h))"
    by blast
  have "length (res ! g ! h) = length (ab ! g) \<and>
        (\<forall>i<length (ab ! g). length (res ! g ! h ! i) = length (ab ! g ! i) \<and>
          (\<forall>j<length (ab ! g ! i).
             res ! g ! h ! i ! j =
               ab ! g ! i ! j + (if 0 < i \<and> 0 < j then sp ! g ! h ! (i - 1) ! (j - 1) else 0) +
                 (if i = 0 \<or> j = 0 then t ! h else 0) + ab ! g ! i ! j))"
    if g: "g < length ab" and h: "h < num_heads m" for g h
  proof -
    from m g h have e: "res ! g ! h = head_bias (ab ! g) (sp ! g ! h) (t ! h)"
      and s1: "same_shape2 (res ! g ! h) (ab ! g)"
      and s2: "same_shape2 (map (drop 1) (drop 1 (ab ! g))) (sp ! g ! h)"
      by blast+
    show ?thesis
      using same_shape2_lengths [OF s1] head_bias_entry [OF s2, of _ _ "t ! h"]
      by (simp add: e)
  qed
  then show ?thesis using d a sp t l m by blast
qed


lemma forward_bias_model_lit: "forward_bias model_lit data0 store0 = Inr (bias0, store0')"
  by code_simp

lemma forward_model_lit:
  "forward model_lit data0 (None :: unit option) store0 =
     Inr ([[[0, 2], [1, 2], [3, 4]]], store0')"
  by code_simp

section \<open>The bias tensor\<close>



text \<open>
  C3. In the bias tensor of the call, an entry of the graph-token row (row 0, every
  column) or of the graph-token column (column 0, rows 1 and beyond) is the baseline
  entry twice plus the virtual distance of the head, with no structural term; an entry
  with row and column both at least 1 is the baseline entry twice plus the structural
  sum, with no virtual distance.
\<close>

theorem graph_token_row_and_column:
  assumes "forward_bias m data s = Inr (res, s')"
  shows "\<exists>a ab la lraw sp t.
    data_attn_bias data = Some a \<and> a < length s \<and> s ! a = Float3 ab \<and>
    data_len_shortest_path data = Some la \<and> la < length s \<and> s ! la = Long3 lraw \<and>
    spatial_pos_bias m data (s @ [Float3 ab, Float4 (map (replicate (num_heads m)) ab)])
      (map3d (\<lambda>v. clamp v 0 39) lraw) = Inr sp \<and>
    view_1_h_1 (weight (graph_token_virtual_distance m)) (num_heads m) = Inr t \<and>
    (\<forall>g<length ab. \<forall>h<num_heads m. \<forall>i<length (ab ! g). \<forall>j<length (ab ! g ! i).
       (i = 0 \<or> j = 0 \<longrightarrow> res ! g ! h ! i ! j = ab ! g ! i ! j + t ! h + ab ! g ! i ! j) \<and>
       (0 < i \<and> 0 < j \<longrightarrow>
          res ! g ! h ! i ! j = ab ! g ! i ! j + sp ! g ! h ! (i - 1) ! (j - 1) + ab ! g ! i ! j))"
proof -
  from forward_bias_closed [OF assms] obtain a ab la lraw sp t where
    d: "data_attn_bias data = Some a" "a < length s" "s ! a = Float3 ab"
      "data_len_shortest_path data = Some la" "la < length s" "s ! la = Long3 lraw"
    and sp: "spatial_pos_bias m data (s @ [Float3 ab, Float4 (map (replicate (num_heads m)) ab)])
      (map3d (\<lambda>v. clamp v 0 39) lraw) = Inr sp"
    and t: "view_1_h_1 (weight (graph_token_virtual_distance m)) (num_heads m) = Inr t"
    and e: "\<forall>g<length ab. length (res ! g) = num_heads m \<and>
      (\<forall>h<num_heads m. length (res ! g ! h) = length (ab ! g) \<and>
        (\<forall>i<length (ab ! g). length (res ! g ! h ! i) = length (ab ! g ! i) \<and>
          (\<forall>j<length (ab ! g ! i).
             res ! g ! h ! i ! j =
               ab ! g ! i ! j + (if 0 < i \<and> 0 < j then sp ! g ! h ! (i - 1) ! (j - 1) else 0) +
                 (if i = 0 \<or> j = 0 then t ! h else 0) + ab ! g ! i ! j)))"
    by blast
  have "(i = 0 \<or> j = 0 \<longrightarrow> res ! g ! h ! i ! j = ab ! g ! i ! j + t ! h + ab ! g ! i ! j) \<and>
       (0 < i \<and> 0 < j \<longrightarrow>
          res ! g ! h ! i ! j = ab ! g ! i ! j + sp ! g ! h ! (i - 1) ! (j - 1) + ab ! g ! i ! j)"
    if "g < length ab" "h < num_heads m" "i < length (ab ! g)" "j < length (ab ! g ! i)"
    for g h i j
  proof -
    from e that have "res ! g ! h ! i ! j =
               ab ! g ! i ! j + (if 0 < i \<and> 0 < j then sp ! g ! h ! (i - 1) ! (j - 1) else 0) +
                 (if i = 0 \<or> j = 0 then t ! h else 0) + ab ! g ! i ! j"
      by blast
    then show ?thesis by auto
  qed
  then show ?thesis using d sp t by blast
qed

theorem graph_token_row_and_column_witness:
  "forward_bias model_lit data0 store0 = Inr (bias0, store0') \<and>
   (\<exists>t. view_1_h_1 (weight (graph_token_virtual_distance model_lit)) 2 = Inr t \<and>
      bias0 ! 0 ! 1 ! 0 ! 0 = 0 + t ! 1 + 0 \<and>
      bias0 ! 0 ! 1 ! 0 ! 2 = 2 + t ! 1 + 2 \<and>
      bias0 ! 0 ! 1 ! 2 ! 0 = 6 + t ! 1 + 6)"
proof -
  from graph_token_row_and_column [OF forward_bias_model_lit] obtain a ab t where
    d: "data_attn_bias data0 = Some a" "store0 ! a = Float3 ab"
    and t: "view_1_h_1 (weight (graph_token_virtual_distance model_lit)) (num_heads model_lit) = Inr t"
    and e: "\<forall>g<length ab. \<forall>h<num_heads model_lit. \<forall>i<length (ab ! g). \<forall>j<length (ab ! g ! i).
       (i = 0 \<or> j = 0 \<longrightarrow> bias0 ! g ! h ! i ! j = ab ! g ! i ! j + t ! h + ab ! g ! i ! j)"
    by blast
  have a: "a = 2" using d by (simp add: data0_def)
  have ab: "ab = [[[0, 1, 2], [3, 4, 5], [6, 7, 8]]]"
    using d by (simp add: a store0_def)
  have H: "num_heads model_lit = 2" by (simp add: model_lit_def)
  have e': "g < length ab \<Longrightarrow> h < num_heads model_lit \<Longrightarrow> i < length (ab ! g) \<Longrightarrow>
      j < length (ab ! g ! i) \<Longrightarrow> i = 0 \<or> j = 0 \<Longrightarrow>
      bias0 ! g ! h ! i ! j = ab ! g ! i ! j + t ! h + ab ! g ! i ! j" for g h i j
    using e by blast
  have e1: "bias0 ! 0 ! 1 ! 0 ! 0 = 0 + t ! 1 + 0"
    using e' [of 0 1 0 0] by (simp add: ab H)
  have e2: "bias0 ! 0 ! 1 ! 0 ! 2 = 2 + t ! 1 + 2"
    using e' [of 0 1 0 2] by (simp add: ab H)
  have e3: "bias0 ! 0 ! 1 ! 2 ! 0 = 6 + t ! 1 + 6"
    using e' [of 0 1 2 0] by (simp add: ab H)
  show ?thesis
    using forward_bias_model_lit t e1 e2 e3 unfolding H by blast
qed

section \<open>The caller's tensors\<close>

text \<open>
  C8. A call that returns leaves every tensor that existed before the call as it was:
  the store after the call is the store before it followed by new objects. The first new
  object is the clone of the baseline bias, which is a different object from the
  baseline; the in-place writes go to the tensor built from the clone.
\<close>

theorem forward_leaves_inputs:
  assumes "forward m data p s = Inr (out, s')"
  shows "length s \<le> length s' \<and> (\<forall>k<length s. s' ! k = s ! k) \<and>
    (\<exists>a ab. data_attn_bias data = Some a \<and> a < length s \<and> s ! a = Float3 ab \<and>
       s' ! a = Float3 ab \<and> s' ! length s = Float3 ab \<and> a \<noteq> length s)"
proof -
  from forward_InrD [OF assms] obtain res where b: "forward_bias m data s = Inr (res, s')"
    by blast
  from forward_bias_InrD [OF b] obtain a la lraw where
    d: "data_attn_bias data = Some a"
    and f: "forward_graph_attn_bias m data s a (map3d (\<lambda>v. clamp v 0 39) lraw) = Inr (res, s')"
    by blast
  from forward_graph_attn_bias_closed [OF f] obtain ab c where
    a: "a < length s" "s ! a = Float3 ab" and s': "s' = s @ [Float3 ab, Float4 c]"
    by blast
  show ?thesis using d a by (auto simp: s' nth_append)
qed

theorem forward_leaves_inputs_witness:
  "forward model_lit data0 (None :: unit option) store0 =
     Inr ([[[0, 2], [1, 2], [3, 4]]], store0') \<and>
   length store0 \<le> length store0' \<and> take (length store0) store0' = store0 \<and>
   store0' ! 2 = store0 ! 2 \<and> store0' ! 9 = store0 ! 2"
proof -
  from forward_leaves_inputs [OF forward_model_lit] obtain a ab where
    l: "length store0 \<le> length store0'"
    and k: "\<forall>k<length store0. store0' ! k = store0 ! k"
    and a: "data_attn_bias data0 = Some a" "store0 ! a = Float3 ab"
      "store0' ! length store0 = Float3 ab"
    by blast
  have "a = 2" using a(1) by (simp add: data0_def)
  moreover have "length store0 = 9" by (simp add: store0_def)
  ultimately have c: "store0' ! 9 = store0 ! 2" using a(2,3) by simp
  have t: "take (length store0) store0' = store0"
    using l k by (intro nth_equalityI) simp_all
  have "store0' ! 2 = store0 ! 2" using k by (simp add: store0_def)
  then show ?thesis using forward_model_lit l t c by blast
qed

end
